theory Spec2Isabelle
  imports Main "HOL-Library.Sublist"
begin

section \<open>The framework detection engine of the Tech Analyzer extension\<close>

text \<open>
  The engine is the function \<^verbatim>\<open>getDetectedFrameworks\<close> of \<^verbatim>\<open>popup.js\<close> (lines 353-577),
  called by \<^verbatim>\<open>analyzePage\<close> (lines 579-604) once per enabled family. It runs inside the
  inspected page and reads the page through browser interfaces. The page is a parameter
  of the model: a record holding what each interface returns.

  The module version of the popup script holds a second copy of the engine
  (\<^verbatim>\<open>getDetectedFrameworks\<close> and \<^verbatim>\<open>detectFrameworks\<close>). It has the same statements, without
  the two branches for \<^verbatim>\<open>styleRule\<close> and \<^verbatim>\<open>multiClass\<close> signals, and its own catalog.
\<close>

subsection \<open>JavaScript values and strings\<close>

text \<open>
  The values a property of \<^verbatim>\<open>window\<close> or a predicate can hold. Numbers are integers here,
  which is enough for truthiness and for \<^verbatim>\<open>typeof\<close>.
\<close>

datatype jsval =
    JUndefined
  | JNull
  | JBool bool
  | JNumber int
  | JString string
  | JFunction
  | JObject

text \<open>The condition of a JavaScript \<^verbatim>\<open>if\<close>: every value is truthy but the falsy ones.\<close>

fun truthy :: "jsval \<Rightarrow> bool" where
  "truthy JUndefined = False"
| "truthy JNull = False"
| "truthy (JBool b) = b"
| "truthy (JNumber n) = (n \<noteq> 0)"
| "truthy (JString s) = (s \<noteq> [])"
| "truthy JFunction = True"
| "truthy JObject = True"

fun typeof :: "jsval \<Rightarrow> string" where
  "typeof JUndefined = ''undefined''"
| "typeof JNull = ''object''"
| "typeof (JBool b) = ''boolean''"
| "typeof (JNumber n) = ''number''"
| "typeof (JString s) = ''string''"
| "typeof JFunction = ''function''"
| "typeof JObject = ''object''"

text \<open>Decimal digits of a number, as a template string prints it.\<close>

fun string_of_nat :: "nat \<Rightarrow> string" where
  "string_of_nat n =
     (if n < 10 then [char_of (48 + n)]
      else string_of_nat (n div 10) @ [char_of (48 + n mod 10)])"

definition string_of_int :: "int \<Rightarrow> string" where
  "string_of_int i =
     (if i < 0 then CHR ''-'' # string_of_nat (nat (- i)) else string_of_nat (nat i))"

text \<open>\<^verbatim>\<open>String(v)\<close> on the values that reach it.\<close>

fun String :: "jsval \<Rightarrow> string" where
  "String JUndefined = ''undefined''"
| "String JNull = ''null''"
| "String (JBool b) = (if b then ''true'' else ''false'')"
| "String (JNumber n) = string_of_int n"
| "String (JString s) = s"
| "String JFunction = ''function () { [native code] }''"
| "String JObject = ''[object Object]''"

text \<open>
  \<^verbatim>\<open>toLowerCase\<close>, letter by letter: a string is a list of characters and only the letters
  A to Z have a lower-case form.
\<close>

definition toLowerChar :: "char \<Rightarrow> char" where
  "toLowerChar c =
     (case map_of (zip ''ABCDEFGHIJKLMNOPQRSTUVWXYZ'' ''abcdefghijklmnopqrstuvwxyz'') c of
        Some l \<Rightarrow> l
      | None \<Rightarrow> c)"

definition toLowerCase :: "string \<Rightarrow> string" where
  "toLowerCase s = map toLowerChar s"

text \<open>\<^verbatim>\<open>s.includes(p)\<close>: \<open>p\<close> starts at some position of \<open>s\<close>.\<close>

fun includes_js :: "string \<Rightarrow> string \<Rightarrow> bool" where
  "includes_js [] p = (p = [])"
| "includes_js (c # s) p = (prefix p (c # s) \<or> includes_js s p)"

text \<open>\<^verbatim>\<open>s.indexOf(p)\<close>: the first such position, or -1.\<close>

fun indexOf :: "string \<Rightarrow> string \<Rightarrow> int" where
  "indexOf [] p = (if p = [] then 0 else - 1)"
| "indexOf (c # s) p =
     (if prefix p (c # s) then 0
      else (let i = indexOf s p in if i < 0 then - 1 else i + 1))"

text \<open>\<^verbatim>\<open>s.substring(start, end)\<close> for \<open>0 \<le> start \<le> end \<le> length s\<close>, and \<^verbatim>\<open>s.slice(0, n)\<close>.\<close>

definition substring :: "string \<Rightarrow> int \<Rightarrow> int \<Rightarrow> string" where
  "substring s start end' = take (nat (end' - start)) (drop (nat start) s)"

definition slice0 :: "string \<Rightarrow> nat \<Rightarrow> string" where
  "slice0 s n = take n s"

subsection \<open>The inspected page\<close>

text \<open>
  \<^verbatim>\<open>el.className\<close> is a string on an HTML element and an \<^verbatim>\<open>SVGAnimatedString\<close> (with a
  \<^verbatim>\<open>baseVal\<close>) on an SVG element; the engine reads both (lines 477-479).
\<close>

datatype class_name = ClassString string | SVGAnimatedString string

record element =
  tagName :: string
  className :: class_name
  src :: string
  href :: string
  outerHTML :: string

datatype exn = SyntaxError string | TypeError string | SecurityError string

text \<open>
  What the engine reads of the page:
  \<^item> \<open>window\<close>: \<^verbatim>\<open>window[name]\<close>, \<open>JUndefined\<close> for a name that is not set;
  \<^item> \<open>scripts\<close>: \<^verbatim>\<open>document.querySelectorAll('script[src]')\<close>, in document order;
  \<^item> \<open>classElements\<close>: \<^verbatim>\<open>document.querySelectorAll('[class]')\<close>;
  \<^item> \<open>styleLinks\<close>: \<^verbatim>\<open>document.querySelectorAll('link[rel="stylesheet"][href]')\<close>, the
    loaded stylesheets (read by the file listing of \<^verbatim>\<open>analyzePage\<close>, line 649);
  \<^item> \<open>querySelectorAll\<close>: the same call on a selector built from a catalog pattern, which
    throws on a selector that is not valid CSS;
  \<^item> \<open>pageHTML\<close>: \<^verbatim>\<open>document.documentElement.outerHTML\<close>.
  The two fixed selectors are valid CSS, so their calls cannot throw; each property has
  the type its interface declares (\<^verbatim>\<open>src\<close> of a script element is a string).
\<close>

record document =
  window :: "string \<Rightarrow> jsval"
  scripts :: "element list"
  classElements :: "element list"
  styleLinks :: "element list"
  querySelectorAll :: "string \<Rightarrow> exn + element list"
  pageHTML :: string

subsection \<open>The signal catalog\<close>

text \<open>
  A signal has a type, a weight, and a list of patterns or a predicate \<^verbatim>\<open>test\<close>; a field
  that the object literal leaves out is \<open>None\<close>. A predicate of the catalog takes no
  argument and reads the page; it returns a value or throws.
\<close>

record signal =
  type :: string
  patterns :: "string list option"
  test :: "(document \<Rightarrow> exn + jsval) option"
  weight :: int

record framework =
  name :: string
  confidence :: int
  signals :: "signal list"
  minConfidence :: int

record FRAMEWORK_DETECTION =
  js :: "framework list"
  css :: "framework list"

record options =
  jsFrameworks :: bool
  cssFrameworks :: bool
  listJS :: bool
  listCSS :: bool
  debugMode :: bool

text \<open>The object \<^verbatim>\<open>analyzePage\<close> returns, restricted to its two framework fields.\<close>

record frameworkFindings =
  jsFrameworks :: "string list"
  cssFrameworks :: "string list"

subsection \<open>The state of one evaluation\<close>

text \<open>
  An entry of \<^verbatim>\<open>signalResults.details\<close> is a string or an array of strings. A line of
  the console is the message with the data printed after it; \<^verbatim>\<open>debugLog\<close> prints
  \<^verbatim>\<open>data || ''\<close>.
\<close>

datatype detail = Str string | Arr "string list"

record signalResults =
  sr_type :: string
  sr_weight :: int
  detected :: bool
  details :: "detail list"

datatype log_data =
    LStr string
  | LObj "(string \<times> string) list"
  | LDetails "detail list"

type_synonym log_entry = "string \<times> log_data"

text \<open>
  The engine mutates \<^verbatim>\<open>framework.confidence\<close>, \<^verbatim>\<open>signalResults\<close> and the console while it
  evaluates a signal. The model passes the three along.
\<close>

record state =
  fw :: framework
  sr :: signalResults
  console :: "log_entry list"

definition addConfidence :: "int \<Rightarrow> state \<Rightarrow> state" where
  "addConfidence w st = st\<lparr>fw := (fw st)\<lparr>confidence := confidence (fw st) + w\<rparr>\<rparr>"

definition setDetected :: "state \<Rightarrow> state" where
  "setDetected st = st\<lparr>sr := (sr st)\<lparr>detected := True\<rparr>\<rparr>"

definition pushDetails :: "detail list \<Rightarrow> state \<Rightarrow> state" where
  "pushDetails ds st = st\<lparr>sr := (sr st)\<lparr>details := details (sr st) @ ds\<rparr>\<rparr>"

text \<open>Lines 156-158: a logger that prints in debug mode and does nothing otherwise.\<close>

definition debugLog :: "options \<Rightarrow> string \<Rightarrow> log_data option \<Rightarrow> log_entry list \<Rightarrow> log_entry list" where
  "debugLog opts message data out =
     (if debugMode opts
      then out @ [(''%c[Tech Analyzer Debug] %c'' @ message,
                   (case data of None \<Rightarrow> LStr [] | Some d \<Rightarrow> d))]
      else out)"

definition debugLogSt :: "options \<Rightarrow> string \<Rightarrow> log_data option \<Rightarrow> state \<Rightarrow> state" where
  "debugLogSt opts message data st = st\<lparr>console := debugLog opts message data (console st)\<rparr>"

definition quoted :: "string \<Rightarrow> string" where
  "quoted s = CHR 0x22 # s @ [CHR 0x22]"

definition ellipsis :: "string \<Rightarrow> nat \<Rightarrow> string" where
  "ellipsis s n = slice0 s n @ (if length s > n then ''...'' else [])"

subsection \<open>Signals with patterns\<close>

text \<open>Lines 374-392, the body of the loop over the patterns of a \<^verbatim>\<open>global\<close> signal.\<close>

definition preview :: "jsval \<Rightarrow> string" where
  "preview v =
     (if typeof v = ''function'' then ''function()''
      else if typeof v = ''object'' then (if v = JNull then ''null'' else ''{}'')
      else slice0 (String v) 50)"

definition globalPattern :: "document \<Rightarrow> options \<Rightarrow> signal \<Rightarrow> state \<Rightarrow> string \<Rightarrow> state" where
  "globalPattern doc opts signal st pattern =
     (if truthy (window doc pattern) then
        (let st1 = pushDetails [Str (''Found global variable: '' @ pattern)]
                     (setDetected (addConfidence (weight signal) st))
         in if debugMode opts
            then pushDetails
                   [Str (''Type: '' @ typeof (window doc pattern) @ '', Value: '' @
                         preview (window doc pattern))] st1
            else st1)
      else st)"

text \<open>
  Lines 395-436, the body of the loop over the patterns of a \<^verbatim>\<open>file\<close> signal.
  \<^verbatim>\<open>scriptSrcs.find\<close> returns the first source that includes the pattern, or
  \<^verbatim>\<open>undefined\<close>; the \<^verbatim>\<open>if\<close> tests the truthiness of what it returns.
\<close>

definition js_find :: "(string \<Rightarrow> bool) \<Rightarrow> string list \<Rightarrow> jsval" where
  "js_find P xs = (case find P xs of None \<Rightarrow> JUndefined | Some s \<Rightarrow> JString s)"

definition filePattern :: "document \<Rightarrow> options \<Rightarrow> signal \<Rightarrow> state \<Rightarrow> string \<Rightarrow> state" where
  "filePattern doc opts signal st pattern =
     (let scriptTags = scripts doc;
          scriptSrcs = map (\<lambda>tag. toLowerCase (src tag)) scriptTags;
          pageSource = toLowerCase (pageHTML doc);
          patternLower = toLowerCase pattern;
          matchingSrc = js_find (\<lambda>s. includes_js s patternLower) scriptSrcs
      in
        if truthy matchingSrc then
          (let st1 = pushDetails [Str (''Found script src: '' @ String matchingSrc)]
                       (setDetected (addConfidence (weight signal) st))
           in if debugMode opts then
                (case find (\<lambda>tag. includes_js (toLowerCase (src tag)) patternLower) scriptTags of
                   Some matchingTag \<Rightarrow>
                     debugLogSt opts (''Script file matching '' @ quoted pattern @ '':'')
                       (Some (LObj [(''fullUrl'', src matchingTag),
                                    (''tag'', ellipsis (outerHTML matchingTag) 150)])) st1
                 | None \<Rightarrow> st1)
              else st1)
        else if includes_js pageSource patternLower then
          (let st1 = pushDetails [Str (''Found pattern in page source: '' @ pattern)]
                       (setDetected (addConfidence 1 st))
           in if debugMode opts then
                (let index = indexOf pageSource patternLower;
                     start = max 0 (index - 50);
                     end' = min (int (length pageSource)) (index + int (length patternLower) + 50);
                     context = substring pageSource start end'
                 in debugLogSt opts (''Source context containing '' @ quoted pattern @ '':'')
                      (Some (LStr (''...'' @ context @ ''...''))) st1)
              else st1)
        else st)"

text \<open>
  Lines 439-466, the body of the loop over the patterns of an \<^verbatim>\<open>attribute\<close> signal. The
  \<^verbatim>\<open>try\<close> is inside the loop: a selector that throws ends this pattern only.
\<close>

definition attributePattern :: "document \<Rightarrow> options \<Rightarrow> signal \<Rightarrow> state \<Rightarrow> string \<Rightarrow> state" where
  "attributePattern doc opts signal st pattern =
     (let selector = ''['' @ pattern @ ''],[data-'' @ pattern @ '']'' in
        case querySelectorAll doc selector of
          Inl e \<Rightarrow> st
        | Inr matchingElements \<Rightarrow>
            if length matchingElements > 0 then
              (let st1 = pushDetails
                           [Str (''Found '' @ string_of_nat (length matchingElements) @
                                 '' elements with attribute: '' @ pattern)]
                           (setDetected (addConfidence (weight signal) st))
               in if debugMode opts then
                    (let st2 = debugLogSt opts
                                 (''Detected '' @ string_of_nat (length matchingElements) @
                                  '' elements with attribute: '' @ pattern) None st1;
                         elementDetails =
                           map (\<lambda>el. ''<'' @ toLowerCase (tagName el) @ ''...> '' @
                                      ellipsis (outerHTML el) 100)
                               (take 3 matchingElements)
                     in pushDetails [Str ''Element samples:'', Arr elementDetails] st2)
                  else st1)
            else st)"

text \<open>
  Lines 469-511, a \<^verbatim>\<open>class\<close> signal. The inner loop over the elements stops at the first
  element whose class includes the pattern (\<^verbatim>\<open>break\<close>, line 485).
\<close>

definition classNameString :: "element \<Rightarrow> string" where
  "classNameString el =
     (case className el of
        ClassString s \<Rightarrow> s
      | SVGAnimatedString baseVal \<Rightarrow> (if baseVal \<noteq> [] then baseVal else []))"

fun classLoop :: "signal \<Rightarrow> string \<Rightarrow> element list \<Rightarrow> state \<Rightarrow> state \<times> element list" where
  "classLoop signal patternLower [] st = (st, [])"
| "classLoop signal patternLower (el # elements) st =
     (if includes_js (toLowerCase (classNameString el)) patternLower
      then (setDetected (addConfidence (weight signal) st), [el])
      else classLoop signal patternLower elements st)"

definition classPattern :: "document \<Rightarrow> options \<Rightarrow> signal \<Rightarrow> state \<Rightarrow> string \<Rightarrow> state" where
  "classPattern doc opts signal st pattern =
     (let elements = classElements doc;
          patternLower = toLowerCase pattern;
          (st1, foundElements) = classLoop signal patternLower elements st
      in
        case foundElements of
          [] \<Rightarrow> st1
        | el0 # _ \<Rightarrow>
            (let st2 = pushDetails
                         [Str (''Found '' @ string_of_nat (length foundElements) @
                               '' elements with class matching: '' @ pattern),
                          Str (''Example class: '' @ classNameString el0)] st1
             in if debugMode opts then
                  pushDetails
                    [Str ''Element samples with matching classes:'',
                     Arr (map (\<lambda>el. ''<'' @ toLowerCase (tagName el) @ '' class='' @
                                     quoted (classNameString el) @ ''...> '' @
                                     ellipsis (outerHTML el) 100)
                              (take 3 foundElements))] st2
                else st2))"

text \<open>\<^verbatim>\<open>signal.patterns.forEach\<close>, run when \<^verbatim>\<open>signal.patterns\<close> is there.\<close>

definition forEachPattern :: "signal \<Rightarrow> (state \<Rightarrow> string \<Rightarrow> state) \<Rightarrow> state \<Rightarrow> state" where
  "forEachPattern signal body st =
     (case patterns signal of None \<Rightarrow> st | Some ps \<Rightarrow> foldl body st ps)"

subsection \<open>Signals with a predicate\<close>

text \<open>
  Lines 513-550: \<^verbatim>\<open>dom\<close>, \<^verbatim>\<open>styleRule\<close> and \<^verbatim>\<open>multiClass\<close> signals call \<^verbatim>\<open>signal.test()\<close> inside
  a \<^verbatim>\<open>try\<close> whose \<^verbatim>\<open>catch\<close> is empty. A predicate that catches an error itself (the
  predicates that read computed styles or the rules of a stylesheet do) returns a value.
\<close>

definition runTest :: "document \<Rightarrow> signal \<Rightarrow> string \<Rightarrow> state \<Rightarrow> state" where
  "runTest doc signal message st =
     (case test signal of
        None \<Rightarrow> st
      | Some t \<Rightarrow>
          (case t doc of
             Inl e \<Rightarrow> st
           | Inr v \<Rightarrow>
               if truthy v
               then pushDetails [Str message] (setDetected (addConfidence (weight signal) st))
               else st))"

subsection \<open>One signal, one framework, one family\<close>

text \<open>
  Lines 364-556, the body of \<^verbatim>\<open>framework.signals.forEach\<close>: seven \<^verbatim>\<open>if\<close> statements in
  a row, one per signal type, then the signal's results are kept if it was detected.
  The accumulator is the framework, \<^verbatim>\<open>detectionDetails\<close> and the console.
\<close>

definition evalSignal ::
  "document \<Rightarrow> options \<Rightarrow> framework \<times> signalResults list \<times> log_entry list \<Rightarrow> signal
   \<Rightarrow> framework \<times> signalResults list \<times> log_entry list" where
  "evalSignal doc opts acc signal =
     (case acc of (framework, detectionDetails, out) \<Rightarrow>
        (let st0 = \<lparr>fw = framework,
                    sr = \<lparr>sr_type = type signal, sr_weight = weight signal,
                          detected = False, details = []\<rparr>,
                    console = out\<rparr>;
             st1 = (if type signal = ''global''
                    then forEachPattern signal (globalPattern doc opts signal) st0 else st0);
             st2 = (if type signal = ''file''
                    then forEachPattern signal (filePattern doc opts signal) st1 else st1);
             st3 = (if type signal = ''attribute''
                    then forEachPattern signal (attributePattern doc opts signal) st2 else st2);
             st4 = (if type signal = ''class''
                    then forEachPattern signal (classPattern doc opts signal) st3 else st3);
             st5 = (if type signal = ''dom''
                    then runTest doc signal ''DOM structure test passed'' st4 else st4);
             st6 = (if type signal = ''styleRule''
                    then runTest doc signal ''Style rule test passed'' st5 else st5);
             st7 = (if type signal = ''multiClass''
                    then runTest doc signal ''Multi-class pattern test passed'' st6 else st6)
         in (fw st7,
             (if detected (sr st7) then detectionDetails @ [sr st7] else detectionDetails),
             console st7)))"

text \<open>
  Lines 358-574, the body of \<^verbatim>\<open>frameworkList.forEach\<close>: reset the confidence, evaluate
  the signals, compare with the threshold. The accumulator is the list of the frameworks
  already evaluated (with the confidence each was left with), \<^verbatim>\<open>detectedFrameworks\<close> and
  the console.
\<close>

definition detectedLines :: "options \<Rightarrow> framework \<Rightarrow> signalResults list \<Rightarrow> log_entry list \<Rightarrow> log_entry list" where
  "detectedLines opts framework detectionDetails out =
     (let out1 = debugLog opts
                   (''Detected '' @ name framework @ '' with confidence score: '' @
                    string_of_int (confidence framework) @ ''/'' @
                    string_of_int (minConfidence framework)) None out;
          out2 = foldl (\<lambda>lines signal.
                          debugLog opts
                            (''Signal type: '' @ sr_type signal @ '' (weight: '' @
                             string_of_int (sr_weight signal) @ '')'')
                            (Some (LDetails (details signal))) lines)
                   out1 detectionDetails
      in out2 @ [(''%c------------------------------------'', LStr ''color: #ccc'')])"

definition evalFramework ::
  "document \<Rightarrow> options \<Rightarrow> framework list \<times> string list \<times> log_entry list \<Rightarrow> framework
   \<Rightarrow> framework list \<times> string list \<times> log_entry list" where
  "evalFramework doc opts acc framework0 =
     (case acc of (evaluated, detectedFrameworks, out) \<Rightarrow>
        (let framework = framework0\<lparr>confidence := 0\<rparr>;
             (framework', detectionDetails, out1) =
               foldl (evalSignal doc opts) (framework, [], out) (signals framework)
         in if confidence framework' \<ge> minConfidence framework' then
              (evaluated @ [framework'],
               detectedFrameworks @ [name framework'],
               (if debugMode opts
                then detectedLines opts framework' detectionDetails out1 else out1))
            else (evaluated @ [framework'], detectedFrameworks, out1)))"

text \<open>
  \<^verbatim>\<open>getDetectedFrameworks(frameworkList)\<close>, lines 353-577. It returns
  \<^verbatim>\<open>detectedFrameworks\<close>; the model returns with it the list as the call leaves it
  (the confidence of each framework is written in place) and the console.
\<close>

definition getDetectedFrameworks ::
  "document \<Rightarrow> options \<Rightarrow> framework list \<Rightarrow> log_entry list
   \<Rightarrow> framework list \<times> string list \<times> log_entry list" where
  "getDetectedFrameworks doc opts frameworkList out =
     foldl (evalFramework doc opts) ([], [], out) frameworkList"

text \<open>
  Lines 579-604 of \<^verbatim>\<open>analyzePage\<close>: the two families. A family runs when its option is
  set, and an empty result becomes the one entry \<^verbatim>\<open>'None detected'\<close>. The catalog
  \<^verbatim>\<open>FRAMEWORK_DETECTION\<close> is built by \<^verbatim>\<open>analyzePage\<close> (lines 161-350); its predicates are
  closures over the page, so the model takes the catalog as an argument.
\<close>

definition orNoneDetected :: "string list \<Rightarrow> string list" where
  "orNoneDetected found = (if length found = 0 then found @ [''None detected''] else found)"

definition detectFrameworks ::
  "document \<Rightarrow> options \<Rightarrow> FRAMEWORK_DETECTION \<Rightarrow> log_entry list
   \<Rightarrow> frameworkFindings \<times> FRAMEWORK_DETECTION \<times> log_entry list" where
  "detectFrameworks doc opts catalog out =
     (let findings = \<lparr>jsFrameworks = [], cssFrameworks = []\<rparr>;
          (findings1, catalog1, out1) =
            (if options.jsFrameworks opts then
               (let (js', found, out') = getDetectedFrameworks doc opts (js catalog) out
                in (findings\<lparr>jsFrameworks := orNoneDetected found\<rparr>, catalog\<lparr>js := js'\<rparr>, out'))
             else (findings, catalog, out))
      in
        if options.cssFrameworks opts then
          (let (css', found, out') = getDetectedFrameworks doc opts (css catalog1) out1
           in (findings1\<lparr>cssFrameworks := orNoneDetected found\<rparr>, catalog1\<lparr>css := css'\<rparr>, out'))
        else (findings1, catalog1, out1))"

text \<open>The React entry of the catalog, lines 163-173.\<close>

definition React :: framework where
  "React = \<lparr>name = ''React'', confidence = 0,
     signals =
       [\<lparr>type = ''global'',
         patterns = Some [''React'', ''ReactDOM'', ''__REACT_DEVTOOLS_GLOBAL_HOOK__''],
         test = None, weight = 3\<rparr>,
        \<lparr>type = ''attribute'', patterns = Some [''data-reactroot'', ''data-reactid''],
         test = None, weight = 5\<rparr>,
        \<lparr>type = ''class'', patterns = Some [''react-'', ''_react''], test = None, weight = 2\<rparr>,
        \<lparr>type = ''file'', patterns = Some [''react.js'', ''react.min.js'', ''react-dom''],
         test = None, weight = 4\<rparr>],
     minConfidence = 4\<rparr>"

section \<open>What the engine computes\<close>

text \<open>
  The weight one pattern or one predicate adds to the confidence, read off the branches
  above, and the sums the two loops build from them. The lemmas below prove that the
  engine leaves exactly these sums in \<^verbatim>\<open>framework.confidence\<close>.
\<close>

definition globalScore :: "document \<Rightarrow> signal \<Rightarrow> string \<Rightarrow> int" where
  "globalScore doc signal pattern = (if truthy (window doc pattern) then weight signal else 0)"

definition fileScore :: "document \<Rightarrow> signal \<Rightarrow> string \<Rightarrow> int" where
  "fileScore doc signal pattern =
     (if truthy (js_find (\<lambda>s. includes_js s (toLowerCase pattern))
                   (map (\<lambda>tag. toLowerCase (src tag)) (scripts doc)))
      then weight signal
      else if includes_js (toLowerCase (pageHTML doc)) (toLowerCase pattern) then 1 else 0)"

definition attributeScore :: "document \<Rightarrow> signal \<Rightarrow> string \<Rightarrow> int" where
  "attributeScore doc signal pattern =
     (case querySelectorAll doc (''['' @ pattern @ ''],[data-'' @ pattern @ '']'') of
        Inl e \<Rightarrow> 0
      | Inr matchingElements \<Rightarrow> if length matchingElements > 0 then weight signal else 0)"

definition classScore :: "document \<Rightarrow> signal \<Rightarrow> string \<Rightarrow> int" where
  "classScore doc signal pattern =
     (if list_ex (\<lambda>el. includes_js (toLowerCase (classNameString el)) (toLowerCase pattern))
           (classElements doc)
      then weight signal else 0)"

definition testScore :: "document \<Rightarrow> signal \<Rightarrow> int" where
  "testScore doc signal =
     (case test signal of
        None \<Rightarrow> 0
      | Some t \<Rightarrow> (case t doc of Inl e \<Rightarrow> 0 | Inr v \<Rightarrow> if truthy v then weight signal else 0))"

definition patternsScore :: "signal \<Rightarrow> (string \<Rightarrow> int) \<Rightarrow> int" where
  "patternsScore signal score =
     (case patterns signal of None \<Rightarrow> 0 | Some ps \<Rightarrow> sum_list (map score ps))"

definition signalScore :: "document \<Rightarrow> signal \<Rightarrow> int" where
  "signalScore doc signal =
     (if type signal = ''global'' then patternsScore signal (globalScore doc signal) else 0) +
     (if type signal = ''file'' then patternsScore signal (fileScore doc signal) else 0) +
     (if type signal = ''attribute'' then patternsScore signal (attributeScore doc signal) else 0) +
     (if type signal = ''class'' then patternsScore signal (classScore doc signal) else 0) +
     (if type signal = ''dom'' then testScore doc signal else 0) +
     (if type signal = ''styleRule'' then testScore doc signal else 0) +
     (if type signal = ''multiClass'' then testScore doc signal else 0)"

definition frameworkScore :: "document \<Rightarrow> framework \<Rightarrow> int" where
  "frameworkScore doc framework = sum_list (map (signalScore doc) (signals framework))"

definition bump :: "int \<Rightarrow> framework \<Rightarrow> framework" where
  "bump n framework = framework\<lparr>confidence := confidence framework + n\<rparr>"

definition scored :: "document \<Rightarrow> framework \<Rightarrow> framework" where
  "scored doc framework = framework\<lparr>confidence := frameworkScore doc framework\<rparr>"

definition passes :: "document \<Rightarrow> framework \<Rightarrow> bool" where
  "passes doc framework = (minConfidence framework \<le> frameworkScore doc framework)"


text \<open>
  Where a pattern occurs, without regard to case: in the \<^verbatim>\<open>src\<close> of a script tag, in the
  serialized page, in the \<^verbatim>\<open>href\<close> of a stylesheet link, in the class of an element.
\<close>

definition srcIncludes :: "document \<Rightarrow> string \<Rightarrow> bool" where
  "srcIncludes doc pattern =
     list_ex (\<lambda>tag. includes_js (toLowerCase (src tag)) (toLowerCase pattern)) (scripts doc)"



definition classMatches :: "string \<Rightarrow> element \<Rightarrow> bool" where
  "classMatches pattern el =
     includes_js (toLowerCase (classNameString el)) (toLowerCase pattern)"


section \<open>Catalog entries and pages used as examples\<close>

text \<open>The Chakra UI entry of the catalog, lines 339-348.\<close>

definition ChakraUI :: framework where
  "ChakraUI = \<lparr>name = ''Chakra UI'', confidence = 0,
     signals =
       [\<lparr>type = ''attribute'', patterns = Some [''data-chakra-''], test = None, weight = 5\<rparr>,
        \<lparr>type = ''class'', patterns = Some [''chakra-''], test = None, weight = 4\<rparr>,
        \<lparr>type = ''file'', patterns = Some [''chakra-ui'', ''@chakra''], test = None, weight = 3\<rparr>],
     minConfidence = 4\<rparr>"

text \<open>A page that sets \<^verbatim>\<open>window.React\<close> and loads one script.\<close>

definition react_script :: element where
  "react_script = \<lparr>tagName = ''SCRIPT'', className = ClassString [],
     src = ''http://a.io/react.min.js'', href = [],
     outerHTML = ''<script src='' @ quoted ''react.min.js'' @ ''></script>''\<rparr>"

definition react_page :: document where
  "react_page = \<lparr>
     window = (\<lambda>n. if n = ''React'' then JObject else JUndefined),
     scripts = [react_script],
     classElements = [],
     styleLinks = [],
     querySelectorAll = (\<lambda>selector. Inr []),
     pageHTML = ''<html>'' @ outerHTML react_script @ ''</html>''\<rparr>"

definition all_options :: options where
  "all_options = \<lparr>options.jsFrameworks = True, options.cssFrameworks = True, listJS = False, listCSS = False,
     debugMode = True\<rparr>"

text \<open>Options with debug mode off, and with the CSS family off.\<close>

definition quiet_options :: options where
  "quiet_options = all_options\<lparr>debugMode := False\<rparr>"

definition js_only_options :: options where
  "js_only_options = all_options\<lparr>options.cssFrameworks := False\<rparr>"

definition example_catalog :: FRAMEWORK_DETECTION where
  "example_catalog = \<lparr>js = [React], css = [ChakraUI]\<rparr>"

text \<open>The state in which the engine starts a signal of a framework.\<close>

definition start_state :: "framework \<Rightarrow> signal \<Rightarrow> state" where
  "start_state framework signal =
     \<lparr>fw = framework,
      sr = \<lparr>sr_type = type signal, sr_weight = weight signal, detected = False, details = []\<rparr>,
      console = []\<rparr>"

text \<open>The class signal of React (line 169) and a page with two elements that match it.\<close>

definition react_class :: signal where
  "react_class = \<lparr>type = ''class'', patterns = Some [''react-'', ''_react''], test = None,
     weight = 2\<rparr>"

definition class_page :: document where
  "class_page = \<lparr>
     window = (\<lambda>n. JUndefined),
     scripts = [],
     classElements =
       [\<lparr>tagName = ''DIV'', className = ClassString ''app React-root'', src = [], href = [],
         outerHTML = ''<div class='' @ quoted ''app React-root'' @ ''></div>''\<rparr>,
        \<lparr>tagName = ''svg'', className = SVGAnimatedString ''react-icon'', src = [], href = [],
         outerHTML = ''<svg class='' @ quoted ''react-icon'' @ ''></svg>''\<rparr>],
     styleLinks = [],
     querySelectorAll = (\<lambda>selector. Inr []),
     pageHTML = ''<html></html>''\<rparr>"










section \<open>The confidence the engine accumulates\<close>

lemma bump_0 [simp]: "bump 0 f = f"
  by (simp add: bump_def)

lemma bump_bump [simp]: "bump m (bump n f) = bump (n + m) f"
  by (simp add: bump_def)

lemma fw_globalPattern: "fw (globalPattern doc opts s st p) = bump (globalScore doc s p) (fw st)"
  by (simp add: globalPattern_def globalScore_def bump_def addConfidence_def setDetected_def
      pushDetails_def Let_def)

lemma fw_filePattern: "fw (filePattern doc opts s st p) = bump (fileScore doc s p) (fw st)"
  by (simp add: filePattern_def fileScore_def bump_def addConfidence_def setDetected_def
      pushDetails_def debugLogSt_def Let_def split: option.split)

lemma fw_attributePattern:
  "fw (attributePattern doc opts s st p) = bump (attributeScore doc s p) (fw st)"
  by (simp add: attributePattern_def attributeScore_def bump_def addConfidence_def
      setDetected_def pushDetails_def debugLogSt_def Let_def split: sum.split)

lemma fw_classLoop:
  "fw (fst (classLoop s pl els st)) =
     bump (if list_ex (\<lambda>el. includes_js (toLowerCase (classNameString el)) pl) els
           then weight s else 0) (fw st)"
  by (induction els) (simp_all add: bump_def addConfidence_def setDetected_def)

lemma fw_classPattern: "fw (classPattern doc opts s st p) = bump (classScore doc s p) (fw st)"
  using fw_classLoop [of s "toLowerCase p" "classElements doc" st]
  by (auto simp add: classPattern_def classScore_def pushDetails_def Let_def
      split: prod.split list.split)

lemma fw_runTest: "fw (runTest doc s msg st) = bump (testScore doc s) (fw st)"
  by (simp add: runTest_def testScore_def bump_def addConfidence_def setDetected_def
      pushDetails_def split: option.split sum.split)

lemma fw_foldl:
  assumes "\<And>st p. fw (body st p) = bump (score p) (fw st)"
  shows "fw (foldl body st ps) = bump (sum_list (map score ps)) (fw st)"
  by (induction ps arbitrary: st) (simp_all add: assms add.commute)

lemma fw_forEachPattern:
  assumes "\<And>st p. fw (body st p) = bump (score p) (fw st)"
  shows "fw (forEachPattern s body st) = bump (patternsScore s score) (fw st)"
  using fw_foldl [of body score, OF assms]
  by (simp add: forEachPattern_def patternsScore_def split: option.split)

lemma fst_evalSignal:
  "fst (evalSignal doc opts (f, dd, out) s) = bump (signalScore doc s) f"
  by (simp add: evalSignal_def signalScore_def Let_def
      fw_forEachPattern [OF fw_globalPattern] fw_forEachPattern [OF fw_filePattern]
      fw_forEachPattern [OF fw_attributePattern] fw_forEachPattern [OF fw_classPattern]
      fw_runTest)

lemma fst_foldl_evalSignal:
  "fst (foldl (evalSignal doc opts) (f, dd, out) ss) =
     bump (sum_list (map (signalScore doc) ss)) f"
proof (induction ss arbitrary: f dd out)
  case Nil
  show ?case by simp
next
  case (Cons s ss)
  obtain f' dd' out' where step: "evalSignal doc opts (f, dd, out) s = (f', dd', out')"
    by (cases "evalSignal doc opts (f, dd, out) s") auto
  with fst_evalSignal [of doc opts f dd out s] have "f' = bump (signalScore doc s) f"
    by simp
  with step Cons.IH [of f' dd' out'] show ?case
    by (simp add: add.commute)
qed

lemma evalFramework_scored:
  "fst (evalFramework doc opts (ev, found, out) f0) = ev @ [scored doc f0]"
  "fst (snd (evalFramework doc opts (ev, found, out) f0)) =
     found @ (if passes doc f0 then [name f0] else [])"
proof -
  let ?f = "f0\<lparr>confidence := 0\<rparr>"
  obtain f' dd' out' where run:
    "foldl (evalSignal doc opts) (?f, [], out) (signals f0) = (f', dd', out')"
    by (cases "foldl (evalSignal doc opts) (?f, [], out) (signals f0)") auto
  with fst_foldl_evalSignal [of doc opts ?f "[]" out "signals f0"]
  have f': "f' = scored doc f0"
    by (simp add: scored_def bump_def frameworkScore_def)
  from run f' show "fst (evalFramework doc opts (ev, found, out) f0) = ev @ [scored doc f0]"
    by (simp add: evalFramework_def Let_def)
  from run f' show "fst (snd (evalFramework doc opts (ev, found, out) f0)) =
     found @ (if passes doc f0 then [name f0] else [])"
    by (simp add: evalFramework_def Let_def passes_def scored_def)
qed

lemma foldl_evalFramework_scored:
  "fst (foldl (evalFramework doc opts) (ev, found, out) fl) = ev @ map (scored doc) fl \<and>
   fst (snd (foldl (evalFramework doc opts) (ev, found, out) fl)) =
     found @ map name (filter (passes doc) fl)"
proof (induction fl arbitrary: ev found out)
  case Nil
  show ?case by simp
next
  case (Cons f fl)
  obtain ev' found' out' where step:
    "evalFramework doc opts (ev, found, out) f = (ev', found', out')"
    by (cases "evalFramework doc opts (ev, found, out) f") auto
  with evalFramework_scored [of doc opts ev found out f]
  have "ev' = ev @ [scored doc f]" "found' = found @ (if passes doc f then [name f] else [])"
    by simp_all
  with step Cons.IH [of ev' found' out'] show ?case
    by simp
qed

lemma getDetectedFrameworks_scored:
  "fst (getDetectedFrameworks doc opts fl out) = map (scored doc) fl"
  "fst (snd (getDetectedFrameworks doc opts fl out)) = map name (filter (passes doc) fl)"
  using foldl_evalFramework_scored [of doc opts "[]" "[]" out fl]
  by (simp_all add: getDetectedFrameworks_def)

lemma scored_simps [simp]:
  "name (scored doc f) = name f"
  "minConfidence (scored doc f) = minConfidence f"
  "signals (scored doc f) = signals f"
  "confidence (scored doc f) = frameworkScore doc f"
  by (simp_all add: scored_def)

lemma frameworkScore_confidence [simp]:
  "frameworkScore doc (f\<lparr>confidence := c\<rparr>) = frameworkScore doc f"
  by (simp add: frameworkScore_def)

lemma scored_idem [simp]: "scored doc (scored doc f) = scored doc f"
  by (simp add: scored_def)

lemma passes_scored [simp]: "passes doc (scored doc f) = passes doc f"
  by (simp add: passes_def scored_def)

lemma getDetectedFrameworks_eq:
  "\<exists>out'. getDetectedFrameworks doc opts fl out =
     (map (scored doc) fl, map name (filter (passes doc) fl), out')"
  using getDetectedFrameworks_scored [of doc opts fl out]
  by (cases "getDetectedFrameworks doc opts fl out") simp

lemma filter_passes_scored:
  "filter (\<lambda>f. minConfidence f \<le> confidence f) (map (scored doc) fl) =
     map (scored doc) (filter (passes doc) fl)"
  by (induction fl) (simp_all add: passes_def)

lemma count_list_distinct:
  "distinct xs \<Longrightarrow> count_list xs x = (if x \<in> set xs then 1 else 0)"
  by (induction xs) auto

lemma name_in_filter:
  assumes "distinct (map name fl)" "f \<in> set fl"
  shows "name f \<in> name ` set (filter P fl) \<longleftrightarrow> P f"
proof
  assume "name f \<in> name ` set (filter P fl)"
  then obtain g where g: "g \<in> set fl" "P g" "name g = name f" by auto
  from assms(1) have "inj_on name (set fl)" by (simp add: distinct_map)
  with g assms(2) have "g = f" by (auto dest: inj_onD)
  with g show "P f" by simp
next
  assume "P f"
  with assms(2) show "name f \<in> name ` set (filter P fl)" by auto
qed

lemma react_page_React: "frameworkScore react_page React = 7"
  by code_simp

lemma react_page_Chakra: "frameworkScore react_page ChakraUI = 0"
  by code_simp

section \<open>The trace does not depend on the framework object\<close>













section \<open>The console without debug mode\<close>












section \<open>The two families\<close>

lemma detectFrameworks_scored:
  "fst (detectFrameworks doc opts catalog out) =
     \<lparr>jsFrameworks =
        (if options.jsFrameworks opts
         then orNoneDetected (map name (filter (passes doc) (js catalog))) else []),
      cssFrameworks =
        (if options.cssFrameworks opts
         then orNoneDetected (map name (filter (passes doc) (css catalog))) else [])\<rparr>"
  "fst (snd (detectFrameworks doc opts catalog out)) =
     \<lparr>js = (if options.jsFrameworks opts then map (scored doc) (js catalog) else js catalog),
      css = (if options.cssFrameworks opts then map (scored doc) (css catalog) else css catalog)\<rparr>"
proof -
  obtain out1 where a: "getDetectedFrameworks doc opts (js catalog) out =
      (map (scored doc) (js catalog), map name (filter (passes doc) (js catalog)), out1)"
    using getDetectedFrameworks_eq by blast
  obtain out2 where b: "getDetectedFrameworks doc opts (css catalog) out1 =
      (map (scored doc) (css catalog), map name (filter (passes doc) (css catalog)), out2)"
    using getDetectedFrameworks_eq by blast
  obtain out3 where c: "getDetectedFrameworks doc opts (css catalog) out =
      (map (scored doc) (css catalog), map name (filter (passes doc) (css catalog)), out3)"
    using getDetectedFrameworks_eq by blast
  show "fst (detectFrameworks doc opts catalog out) =
     \<lparr>jsFrameworks =
        (if options.jsFrameworks opts
         then orNoneDetected (map name (filter (passes doc) (js catalog))) else []),
      cssFrameworks =
        (if options.cssFrameworks opts
         then orNoneDetected (map name (filter (passes doc) (css catalog))) else [])\<rparr>"
    by (simp add: detectFrameworks_def Let_def a b c)
  show "fst (snd (detectFrameworks doc opts catalog out)) =
     \<lparr>js = (if options.jsFrameworks opts then map (scored doc) (js catalog) else js catalog),
      css = (if options.cssFrameworks opts then map (scored doc) (css catalog) else css catalog)\<rparr>"
    by (simp add: detectFrameworks_def Let_def a b c)
qed



section \<open>Where a pattern occurs\<close>









lemma sum_list_if_count:
  "sum_list (map (\<lambda>p. if P p then (w::int) else 0) ps) = w * int (length (filter P ps))"
  by (induction ps) (simp_all add: algebra_simps)

lemma classScore_eq:
  "classScore doc signal pattern =
     (if list_ex (classMatches pattern) (classElements doc) then weight signal else 0)"
  by (simp add: classScore_def classMatches_def [abs_def])

lemma confidence_bump [simp]: "confidence (bump n f) = confidence f + n"
  by (simp add: bump_def)





lemma srcIncludes_styleLinks [simp]:
  "srcIncludes (doc\<lparr>styleLinks := links\<rparr>) pattern = srcIncludes doc pattern"
  by (simp add: srcIncludes_def)



text \<open>
  The one case in which a pattern that occurs in a \<^verbatim>\<open>src\<close> does not add the weight: the
  empty pattern, found first in an empty \<^verbatim>\<open>src\<close>. \<^verbatim>\<open>find\<close> returns the empty string, the
  \<^verbatim>\<open>if\<close> takes it for no match, and the page includes the empty pattern.
\<close>

lemma fileScore_empty_src:
  "scripts doc = [tag] \<Longrightarrow> src tag = [] \<Longrightarrow> fileScore doc signal [] = 1"
  by (cases "toLowerCase (pageHTML doc)")
    (simp_all add: fileScore_def js_find_def toLowerCase_def)

section \<open>Errors of a signal\<close>










section \<open>The claims\<close>

text \<open>
  C1. After one pass over the supplied list, the name of a framework is in the returned
  sequence if and only if the confidence the pass left in it is at least its
  \<^verbatim>\<open>minConfidence\<close>; the returned sequence is the names of those frameworks in the order
  of the list, so a name that is returned is there once (names are unique in a catalog).
  The list comes back with nothing but the confidences changed.
\<close>

theorem C1_threshold:
  "case getDetectedFrameworks doc opts frameworkList out of
     (evaluated, detectedFrameworks, out') \<Rightarrow>
       list_all2 (\<lambda>e f. e = f\<lparr>confidence := confidence e\<rparr>) evaluated frameworkList \<and>
       detectedFrameworks = map name (filter (\<lambda>f. minConfidence f \<le> confidence f) evaluated) \<and>
       subseq detectedFrameworks (map name frameworkList) \<and>
       (distinct (map name frameworkList) \<longrightarrow>
          (\<forall>f \<in> set evaluated.
             (name f \<in> set detectedFrameworks \<longleftrightarrow> minConfidence f \<le> confidence f) \<and>
             count_list detectedFrameworks (name f) =
               (if minConfidence f \<le> confidence f then 1 else 0)))"
proof -
  obtain out' where run: "getDetectedFrameworks doc opts frameworkList out =
     (map (scored doc) frameworkList, map name (filter (passes doc) frameworkList), out')"
    using getDetectedFrameworks_eq by blast
  let ?ev = "map (scored doc) frameworkList"
  let ?found = "map name (filter (passes doc) frameworkList)"
  have a: "list_all2 (\<lambda>e f. e = f\<lparr>confidence := confidence e\<rparr>) ?ev frameworkList"
    by (simp add: list_all2_map1 list_all2_same scored_def)
  have b: "?found = map name (filter (\<lambda>f. minConfidence f \<le> confidence f) ?ev)"
    by (simp add: filter_passes_scored comp_def)
  have c: "subseq ?found (map name frameworkList)"
    by (simp add: subseq_map)
  have d: "(name f \<in> set ?found \<longleftrightarrow> minConfidence f \<le> confidence f) \<and>
       count_list ?found (name f) = (if minConfidence f \<le> confidence f then 1 else 0)"
    if dist: "distinct (map name frameworkList)" and f: "f \<in> set ?ev" for f
  proof -
    from f obtain g where g: "g \<in> set frameworkList" "f = scored doc g" by auto
    from dist have dfound: "distinct ?found"
      by (simp add: distinct_map_filter)
    have "name g \<in> name ` set (filter (passes doc) frameworkList) \<longleftrightarrow> passes doc g"
      using dist g(1) by (rule name_in_filter)
    with g have mem: "name f \<in> set ?found \<longleftrightarrow> minConfidence f \<le> confidence f"
      by (simp add: passes_def)
    with dfound show ?thesis
      by (simp add: count_list_distinct)
  qed
  show ?thesis
    unfolding run prod.case using a b c d by blast
qed

theorem C1_threshold_witness:
  "distinct (map name [React, ChakraUI]) \<and>
   (case getDetectedFrameworks react_page all_options [React, ChakraUI] [] of
      (evaluated, detectedFrameworks, out') \<Rightarrow>
        map confidence evaluated = [7, 0] \<and> detectedFrameworks = [''React''] \<and>
        count_list detectedFrameworks ''React'' = 1 \<and>
        count_list detectedFrameworks ''Chakra UI'' = 0)"
proof -
  have names: "distinct (map name [React, ChakraUI])"
    by (simp add: React_def ChakraUI_def)
  obtain out' where run: "getDetectedFrameworks react_page all_options [React, ChakraUI] [] =
     ([scored react_page React, scored react_page ChakraUI],
      map name (filter (passes react_page) [React, ChakraUI]), out')"
    using getDetectedFrameworks_eq [of react_page all_options "[React, ChakraUI]" "[]"] by auto
  have found: "map name (filter (passes react_page) [React, ChakraUI]) = [''React'']"
    by (simp add: passes_def react_page_React react_page_Chakra) (simp add: React_def ChakraUI_def)
  from C1_threshold [where doc = react_page and opts = all_options
      and frameworkList = "[React, ChakraUI]" and out = "[]"] names
  show ?thesis
    unfolding run found prod.case
    by (simp add: react_page_React react_page_Chakra) (simp add: React_def ChakraUI_def)
qed






text \<open>
  C4. When a family is enabled and no framework of it meets its threshold, the sequence
  returned for the family is exactly \<^verbatim>\<open>['None detected']\<close>; when some framework does, the
  sequence is the detected names and nothing else. The sentinel is therefore never next
  to a framework name (no catalog entry is named like the sentinel).
\<close>

theorem C4_sentinel:
  "(options.jsFrameworks opts \<longrightarrow>
      (let found = fst (snd (getDetectedFrameworks doc opts (js catalog) out));
           returned = jsFrameworks (fst (detectFrameworks doc opts catalog out))
       in (found = [] \<longrightarrow> returned = [''None detected'']) \<and>
          (found \<noteq> [] \<longrightarrow> returned = found) \<and>
          (''None detected'' \<notin> set (map name (js catalog)) \<longrightarrow>
           ''None detected'' \<in> set returned \<longrightarrow> returned = [''None detected'']))) \<and>
   (options.cssFrameworks opts \<longrightarrow>
      (let found = fst (snd (getDetectedFrameworks doc opts (css catalog) out'));
           returned = cssFrameworks (fst (detectFrameworks doc opts catalog out))
       in (found = [] \<longrightarrow> returned = [''None detected'']) \<and>
          (found \<noteq> [] \<longrightarrow> returned = found) \<and>
          (''None detected'' \<notin> set (map name (css catalog)) \<longrightarrow>
           ''None detected'' \<in> set returned \<longrightarrow> returned = [''None detected''])))"
proof -
  have "returned = [''None detected'']"
    if "''None detected'' \<notin> set (map name fl)"
      and "''None detected'' \<in> set returned"
      and "returned = orNoneDetected (map name (filter (passes doc) fl))"
    for fl returned
  proof (cases "map name (filter (passes doc) fl) = []")
    case True
    with that(3) show ?thesis by (simp add: orNoneDetected_def)
  next
    case False
    with that(3) have "returned = map name (filter (passes doc) fl)"
      by (simp add: orNoneDetected_def)
    with that(1,2) show ?thesis by auto
  qed
  then show ?thesis
    by (simp add: detectFrameworks_scored getDetectedFrameworks_scored Let_def
        orNoneDetected_def)
qed

theorem C4_sentinel_witness:
  "options.jsFrameworks all_options \<and> options.cssFrameworks all_options \<and>
   ''None detected'' \<notin> set (map name (js example_catalog)) \<and>
   fst (snd (getDetectedFrameworks react_page all_options (css example_catalog) [])) = [] \<and>
   cssFrameworks (fst (detectFrameworks react_page all_options example_catalog [])) =
     [''None detected''] \<and>
   fst (snd (getDetectedFrameworks react_page all_options (js example_catalog) [])) = [''React''] \<and>
   jsFrameworks (fst (detectFrameworks react_page all_options example_catalog [])) = [''React'']"
proof -
  have on: "options.jsFrameworks all_options" "options.cssFrameworks all_options"
    by (simp_all add: all_options_def)
  have names: "''None detected'' \<notin> set (map name (js example_catalog))"
    by (simp add: example_catalog_def React_def)
  have css: "fst (snd (getDetectedFrameworks react_page all_options (css example_catalog) [])) = []"
    by code_simp
  have js: "fst (snd (getDetectedFrameworks react_page all_options (js example_catalog) [])) = [''React'']"
    by code_simp
  from C4_sentinel [where opts = all_options and doc = react_page
      and catalog = example_catalog and out = "[]" and out' = "[]"] on names css js
  show ?thesis by (simp add: Let_def)
qed




text \<open>
  C6. When two or more elements have a class that includes a pattern of a class signal,
  without regard to case, the confidence grows by the weight of the signal once for
  that pattern. A class signal adds its weight once per pattern that some element
  matches, however many elements match it.
\<close>

theorem C6_class_once:
  "(2 \<le> length (filter (classMatches pattern) (classElements doc)) \<longrightarrow>
      confidence (fw (classPattern doc opts signal st pattern)) =
        confidence (fw st) + weight signal) \<and>
   (type signal = ''class'' \<longrightarrow> patterns signal = Some ps \<longrightarrow>
      confidence (fst (evalSignal doc opts (f, dd, out) signal)) =
        confidence f + weight signal *
          int (length (filter (\<lambda>p. list_ex (classMatches p) (classElements doc)) ps)))"
proof (intro conjI impI)
  assume "2 \<le> length (filter (classMatches pattern) (classElements doc))"
  then have "filter (classMatches pattern) (classElements doc) \<noteq> []" by auto
  then have "list_ex (classMatches pattern) (classElements doc)"
    by (simp add: list_ex_iff filter_empty_conv)
  then show "confidence (fw (classPattern doc opts signal st pattern)) =
      confidence (fw st) + weight signal"
    by (simp add: fw_classPattern classScore_eq)
next
  assume "type signal = ''class''" "patterns signal = Some ps"
  then have "signalScore doc signal = sum_list (map (classScore doc signal) ps)"
    by (simp add: signalScore_def patternsScore_def)
  then show "confidence (fst (evalSignal doc opts (f, dd, out) signal)) =
      confidence f + weight signal *
        int (length (filter (\<lambda>p. list_ex (classMatches p) (classElements doc)) ps))"
    by (simp add: fst_evalSignal classScore_eq [abs_def] sum_list_if_count)
qed

theorem C6_class_once_witness:
  "2 \<le> length (filter (classMatches ''react-'') (classElements class_page)) \<and>
   confidence (fw (classPattern class_page all_options react_class
      (start_state React react_class) ''react-'')) = 2 \<and>
   confidence (fst (evalSignal class_page all_options (React, [], []) react_class)) = 2"
proof -
  have two: "2 \<le> length (filter (classMatches ''react-'') (classElements class_page))"
    by code_simp
  have start: "confidence (fw (start_state React react_class)) = 0" "confidence React = 0"
    "weight react_class = 2" "type react_class = ''class''"
    "patterns react_class = Some [''react-'', ''_react'']"
    by (simp_all add: start_state_def React_def react_class_def)
  have n: "length (filter (\<lambda>p. list_ex (classMatches p) (classElements class_page))
      [''react-'', ''_react'']) = 1"
    by code_simp
  from C6_class_once [where pattern = "''react-''" and doc = class_page and opts = all_options
      and signal = react_class and st = "start_state React react_class" and f = React
      and dd = "[]" and out = "[]" and ps = "[''react-'', ''_react'']"] two start n
  show ?thesis by simp
qed

text \<open>
  C7. Detection is idempotent. A second call on the list as the first call left it, with
  the same page and options, returns the same names and leaves the same confidences;
  the names do not depend on the confidences the list held before the call, because
  each framework's confidence is set to 0 before its signals are evaluated. The same
  holds for the two families together.
\<close>

theorem C7_idempotent:
  "(case getDetectedFrameworks doc opts frameworkList out of
      (evaluated, found, out1) \<Rightarrow>
        (case getDetectedFrameworks doc opts evaluated out1 of
           (evaluated2, found2, out2) \<Rightarrow> found2 = found \<and> evaluated2 = evaluated)) \<and>
   fst (snd (getDetectedFrameworks doc opts (map (\<lambda>f. f\<lparr>confidence := stale f\<rparr>) frameworkList) out)) =
     fst (snd (getDetectedFrameworks doc opts frameworkList out)) \<and>
   (case detectFrameworks doc opts catalog out of
      (findings, catalog1, out1) \<Rightarrow>
        (case detectFrameworks doc opts catalog1 out1 of
           (findings2, catalog2, out2) \<Rightarrow> findings2 = findings \<and> catalog2 = catalog1))"
proof -
  have map_scored: "map (scored doc) (map (scored doc) fl) = map (scored doc) fl" for fl
    by simp
  have filter_scored: "map name (filter (passes doc) (map (scored doc) fl)) =
      map name (filter (passes doc) fl)" for fl
    by (induction fl) simp_all
  have stale: "map name (filter (passes doc) (map (\<lambda>f. f\<lparr>confidence := stale f\<rparr>) fl)) =
      map name (filter (passes doc) fl)" for fl
    by (induction fl) (simp_all add: passes_def)
  have a: "case getDetectedFrameworks doc opts frameworkList out of
      (evaluated, found, out1) \<Rightarrow>
        (case getDetectedFrameworks doc opts evaluated out1 of
           (evaluated2, found2, out2) \<Rightarrow> found2 = found \<and> evaluated2 = evaluated)"
  proof -
    obtain out1 where r1: "getDetectedFrameworks doc opts frameworkList out =
        (map (scored doc) frameworkList, map name (filter (passes doc) frameworkList), out1)"
      using getDetectedFrameworks_eq by blast
    obtain out2 where r2: "getDetectedFrameworks doc opts (map (scored doc) frameworkList) out1 =
        (map (scored doc) (map (scored doc) frameworkList),
         map name (filter (passes doc) (map (scored doc) frameworkList)), out2)"
      using getDetectedFrameworks_eq by blast
    show ?thesis
      unfolding r1 prod.case r2 map_scored filter_scored by simp
  qed
  have b: "fst (snd (getDetectedFrameworks doc opts
        (map (\<lambda>f. f\<lparr>confidence := stale f\<rparr>) frameworkList) out)) =
      fst (snd (getDetectedFrameworks doc opts frameworkList out))"
    by (simp only: getDetectedFrameworks_scored stale)
  have c: "case detectFrameworks doc opts catalog out of
      (findings, catalog1, out1) \<Rightarrow>
        (case detectFrameworks doc opts catalog1 out1 of
           (findings2, catalog2, out2) \<Rightarrow> findings2 = findings \<and> catalog2 = catalog1)"
  proof -
    obtain findings catalog1 out1 where r1:
      "detectFrameworks doc opts catalog out = (findings, catalog1, out1)"
      by (cases "detectFrameworks doc opts catalog out") auto
    obtain findings2 catalog2 out2 where r2:
      "detectFrameworks doc opts catalog1 out1 = (findings2, catalog2, out2)"
      by (cases "detectFrameworks doc opts catalog1 out1") auto
    from r1 detectFrameworks_scored [of doc opts catalog out]
    have f1: "findings = \<lparr>jsFrameworks =
        (if options.jsFrameworks opts
         then orNoneDetected (map name (filter (passes doc) (js catalog))) else []),
      cssFrameworks =
        (if options.cssFrameworks opts
         then orNoneDetected (map name (filter (passes doc) (css catalog))) else [])\<rparr>"
      and c1: "catalog1 = \<lparr>js = (if options.jsFrameworks opts then map (scored doc) (js catalog) else js catalog),
      css = (if options.cssFrameworks opts then map (scored doc) (css catalog) else css catalog)\<rparr>"
      by simp_all
    from r2 detectFrameworks_scored [of doc opts catalog1 out1]
    have "findings2 = findings" "catalog2 = catalog1"
      unfolding f1 c1 by (simp_all add: filter_scored)
    with r1 r2 show ?thesis by simp
  qed
  from a b c show ?thesis by blast
qed




text \<open>
  C10. A family whose option is off is not evaluated: its sequence is empty, not the
  sentinel, and its part of the catalog is not touched.
\<close>

theorem C10_disabled_family:
  "(\<not> options.jsFrameworks opts \<longrightarrow>
      jsFrameworks (fst (detectFrameworks doc opts catalog out)) = [] \<and>
      js (fst (snd (detectFrameworks doc opts catalog out))) = js catalog) \<and>
   (\<not> options.cssFrameworks opts \<longrightarrow>
      cssFrameworks (fst (detectFrameworks doc opts catalog out)) = [] \<and>
      css (fst (snd (detectFrameworks doc opts catalog out))) = css catalog)"
  by (simp add: detectFrameworks_scored)

theorem C10_disabled_family_witness:
  "\<not> options.cssFrameworks js_only_options \<and>
   cssFrameworks (fst (detectFrameworks react_page js_only_options example_catalog [])) = [] \<and>
   jsFrameworks (fst (detectFrameworks react_page js_only_options example_catalog [])) = [''React'']"
proof -
  have off: "\<not> options.cssFrameworks js_only_options"
    by (simp add: js_only_options_def all_options_def)
  have js: "jsFrameworks (fst (detectFrameworks react_page js_only_options example_catalog []))
      = [''React'']"
    by code_simp
  from C10_disabled_family [where opts = js_only_options and doc = react_page
      and catalog = example_catalog and out = "[]"] off js
  show ?thesis by simp
qed

end
